theory Spec2Isabelle
  imports Complex_Main
begin

section \<open>Python values and string operations\<close>

text \<open>
  The values that \<open>json.loads\<close> produces and that the workflow state carries. Python does
  not check the declared field types on assignment, so a field written from a parsed
  response holds whatever value the response contained. \<open>JNull\<close> is Python's \<open>None\<close>;
  a float is a rational (rounding, infinities and NaN are not modelled); a dict is an
  association list. Strings are lists of 8-bit characters.
\<close>

datatype json =
    JNull
  | JBool bool
  | JInt int
  | JFloat rat
  | JStr string
  | JArr "json list"
  | JObj "(string \<times> json) list"

text \<open>Python truthiness, as used by \<open>x or y\<close>, \<open>not x\<close> and \<open>if x\<close>.\<close>

fun truthy :: "json \<Rightarrow> bool" where
  "truthy JNull = False"
| "truthy (JBool b) = b"
| "truthy (JInt i) = (i \<noteq> 0)"
| "truthy (JFloat r) = (r \<noteq> 0)"
| "truthy (JStr s) = (s \<noteq> [])"
| "truthy (JArr xs) = (xs \<noteq> [])"
| "truthy (JObj kvs) = (kvs \<noteq> [])"

definition py_or :: "json \<Rightarrow> json \<Rightarrow> json" where
  "py_or a b = (if truthy a then a else b)"

text \<open>\<open>truthy_str\<close> is the truthiness of an \<open>Optional[str]\<close>: \<open>None\<close> and \<open>""\<close> are false.\<close>

fun truthy_str :: "string option \<Rightarrow> bool" where
  "truthy_str None = False"
| "truthy_str (Some s) = (s \<noteq> [])"

definition or_str :: "string option \<Rightarrow> string \<Rightarrow> string" where
  "or_str x d = (if truthy_str x then the x else d)"

fun opt_json :: "string option \<Rightarrow> json" where
  "opt_json None = JNull"
| "opt_json (Some s) = JStr s"

text \<open>\<open>startswith sub text\<close> is Python's \<open>text.startswith(sub)\<close>.\<close>

fun startswith :: "string \<Rightarrow> string \<Rightarrow> bool" where
  "startswith [] cs = True"
| "startswith (p # ps) [] = False"
| "startswith (p # ps) (c # cs) = (p = c \<and> startswith ps cs)"

text \<open>Lowest and highest index at which \<open>sub\<close> occurs in the text, if any.\<close>

fun find_idx :: "string \<Rightarrow> string \<Rightarrow> nat option" where
  "find_idx sub [] = (if sub = [] then Some 0 else None)"
| "find_idx sub (c # cs) =
     (if startswith sub (c # cs) then Some 0 else map_option Suc (find_idx sub cs))"

fun rfind_idx :: "string \<Rightarrow> string \<Rightarrow> nat option" where
  "rfind_idx sub [] = (if sub = [] then Some 0 else None)"
| "rfind_idx sub (c # cs) =
     (case rfind_idx sub cs of
        Some i \<Rightarrow> Some (Suc i)
      | None \<Rightarrow> if startswith sub (c # cs) then Some 0 else None)"

text \<open>\<open>sub in text\<close>, \<open>text.find(sub, start)\<close> and \<open>text.rfind(sub)\<close>; the last two
  return \<open>-1\<close> when there is no occurrence.\<close>

definition str_contains :: "string \<Rightarrow> string \<Rightarrow> bool" where
  "str_contains text sub = (find_idx sub text \<noteq> None)"

definition str_find :: "string \<Rightarrow> string \<Rightarrow> nat \<Rightarrow> int" where
  "str_find text sub start =
     (if length text < start then - 1
      else case find_idx sub (drop start text) of
             None \<Rightarrow> - 1
           | Some i \<Rightarrow> int (start + i))"

definition str_rfind :: "string \<Rightarrow> string \<Rightarrow> int" where
  "str_rfind text sub = (case rfind_idx sub text of None \<Rightarrow> - 1 | Some i \<Rightarrow> int i)"

text \<open>\<open>text[i:j]\<close>: a negative bound counts from the end, and both bounds are clamped to
  the text.\<close>

definition clamp_index :: "nat \<Rightarrow> int \<Rightarrow> nat" where
  "clamp_index n i = (if i < 0 then nat (max 0 (i + int n)) else min (nat i) n)"

definition str_slice :: "string \<Rightarrow> int \<Rightarrow> int \<Rightarrow> string" where
  "str_slice text i j =
     (let lo = clamp_index (length text) i;
          hi = clamp_index (length text) j
      in take (hi - lo) (drop lo text))"

text \<open>\<open>str.isspace\<close> on the characters below 256, and \<open>text.strip()\<close>.\<close>

definition isspace :: "char \<Rightarrow> bool" where
  "isspace c =
     (let n = (of_char c :: nat)
      in (9 \<le> n \<and> n \<le> 13) \<or> (28 \<le> n \<and> n \<le> 32) \<or> n = 133 \<or> n = 160)"

definition str_strip :: "string \<Rightarrow> string" where
  "str_strip s = rev (dropWhile isspace (rev (dropWhile isspace s)))"

section \<open>Output parsers (nodes.py)\<close>

text \<open>
  \<open>json.loads\<close> is a parameter \<open>json_loads\<close>: it returns the parsed value or raises
  (\<open>Inl\<close> of the exception's text). Each parser is a \<open>try\<close> block, modelled by the
  \<open>_try\<close> function, and an \<open>except Exception\<close> handler that returns the default object.
  The result type keeps the exception branch so that "does not raise" is a statement
  about the result.
\<close>

definition summary_default :: "string \<Rightarrow> json" where
  "summary_default text =
     JObj [(''summary'', JStr text),
           (''title'', JStr ''Video Summary''),
           (''tone'', JStr ''professional''),
           (''key_points'', JArr []),
           (''tags'', JArr [])]"

definition classification_default :: json where
  "classification_default =
     JObj [(''topic'', JStr ''General''),
           (''category'', JStr ''Education''),
           (''confidence'', JFloat (1 / 2)),
           (''subcategories'', JArr []),
           (''tags'', JArr [])]"

definition SummaryOutputParser_try ::
  "(string \<Rightarrow> string + json) \<Rightarrow> string \<Rightarrow> string + json" where
  "SummaryOutputParser_try json_loads text =
     (if str_contains text ''```json'' then
        let json_start = str_find text ''```json'' 0 + 7;
            json_end = str_find text ''```'' (nat json_start);
            json_str = str_strip (str_slice text json_start json_end)
        in json_loads json_str
      else if str_contains text ''{'' \<and> str_contains text ''}'' then
        let start = str_find text ''{'' 0;
            stop = str_rfind text ''}'' + 1;
            json_str = str_slice text start stop
        in json_loads json_str
      else Inr (summary_default text))"

definition SummaryOutputParser_parse ::
  "(string \<Rightarrow> string + json) \<Rightarrow> string \<Rightarrow> string + json" where
  "SummaryOutputParser_parse json_loads text =
     (case SummaryOutputParser_try json_loads text of
        Inr v \<Rightarrow> Inr v
      | Inl e \<Rightarrow> Inr (summary_default text))"

definition ClassificationOutputParser_try ::
  "(string \<Rightarrow> string + json) \<Rightarrow> string \<Rightarrow> string + json" where
  "ClassificationOutputParser_try json_loads text =
     (if str_contains text ''```json'' then
        let json_start = str_find text ''```json'' 0 + 7;
            json_end = str_find text ''```'' (nat json_start);
            json_str = str_strip (str_slice text json_start json_end)
        in json_loads json_str
      else if str_contains text ''{'' \<and> str_contains text ''}'' then
        let start = str_find text ''{'' 0;
            stop = str_rfind text ''}'' + 1;
            json_str = str_slice text start stop
        in json_loads json_str
      else Inr classification_default)"

definition ClassificationOutputParser_parse ::
  "(string \<Rightarrow> string + json) \<Rightarrow> string \<Rightarrow> string + json" where
  "ClassificationOutputParser_parse json_loads text =
     (case ClassificationOutputParser_try json_loads text of
        Inr v \<Rightarrow> Inr v
      | Inl e \<Rightarrow> Inr classification_default)"

text \<open>The text that either parser hands to \<open>json.loads\<close>, if it calls it at all.\<close>

definition json_candidate :: "string \<Rightarrow> string option" where
  "json_candidate text =
     (if str_contains text ''```json'' then
        Some (str_strip (str_slice text (str_find text ''```json'' 0 + 7)
                (str_find text ''```'' (nat (str_find text ''```json'' 0 + 7)))))
      else if str_contains text ''{'' \<and> str_contains text ''}'' then
        Some (str_slice text (str_find text ''{'' 0) (str_rfind text ''}'' + 1))
      else None)"

text \<open>A stand-in for \<open>json.loads\<close> on the three texts used below: it parses the empty
  object and rejects the other two, as \<open>json.loads\<close> does.\<close>

definition loads0 :: "string \<Rightarrow> string + json" where
  "loads0 s =
     (if s = ''{}'' then Inr (JObj [])
      else if s = ''{''
        then Inl ''Expecting property name enclosed in double quotes: line 1 column 2 (char 1)''
      else Inl ''Expecting value: line 1 column 1 (char 0)'')"

section \<open>Python operations that can raise\<close>

text \<open>
  An operation that can raise returns \<open>Inl\<close> of the text that \<open>str(e)\<close> gives for the
  exception. \<open>sbind\<close> sequences two such operations: the second runs only if the first
  returned.
\<close>

definition sbind :: "'e + 'a \<Rightarrow> ('a \<Rightarrow> 'e + 'b) \<Rightarrow> 'e + 'b" where
  "sbind m f = (case m of Inl e \<Rightarrow> Inl e | Inr x \<Rightarrow> f x)"

fun type_name :: "json \<Rightarrow> string" where
  "type_name JNull = ''NoneType''"
| "type_name (JBool b) = ''bool''"
| "type_name (JInt i) = ''int''"
| "type_name (JFloat r) = ''float''"
| "type_name (JStr s) = ''str''"
| "type_name (JArr xs) = ''list''"
| "type_name (JObj kvs) = ''dict''"

definition sq :: "string \<Rightarrow> string" where
  "sq s = CHR 0x27 # s @ [CHR 0x27]"

definition attribute_error :: "json \<Rightarrow> string \<Rightarrow> string" where
  "attribute_error v attr = sq (type_name v) @ '' object has no attribute '' @ sq attr"

text \<open>\<open>d.get(k, dflt)\<close>: only a dict has the method. A key bound to \<open>None\<close> yields
  \<open>None\<close>, not the default.\<close>

fun py_get :: "json \<Rightarrow> string \<Rightarrow> json \<Rightarrow> string + json" where
  "py_get (JObj kvs) k dflt = Inr (case map_of kvs k of Some v \<Rightarrow> v | None \<Rightarrow> dflt)"
| "py_get v k dflt = Inl (attribute_error v ''get'')"

text \<open>\<open>len(v)\<close>.\<close>

fun py_len :: "json \<Rightarrow> string + nat" where
  "py_len (JStr s) = Inr (length s)"
| "py_len (JArr xs) = Inr (length xs)"
| "py_len (JObj kvs) = Inr (length kvs)"
| "py_len v = Inl (''object of type '' @ sq (type_name v) @ '' has no len()'')"

text \<open>Iterating a value: a list gives its elements, a string its characters, a dict its
  keys; nothing else is iterable.\<close>

fun py_iter :: "json \<Rightarrow> string + json list" where
  "py_iter (JArr xs) = Inr xs"
| "py_iter (JStr s) = Inr (map (\<lambda>c. JStr [c]) s)"
| "py_iter (JObj kvs) = Inr (map (\<lambda>kv. JStr (fst kv)) kvs)"
| "py_iter v = Inl (sq (type_name v) @ '' object is not iterable'')"

text \<open>Decimal digits of a number, as \<open>str(n)\<close> prints them.\<close>

fun show_nat :: "nat \<Rightarrow> string" where
  "show_nat n =
     (if n < 10 then [char_of (48 + n)]
      else show_nat (n div 10) @ [char_of (48 + n mod 10)])"

text \<open>\<open>sep.join(v)\<close>: \<open>v\<close> must be iterable and every item a string; the first item that
  is not one is reported with its index.\<close>

fun bad_item :: "nat \<Rightarrow> json list \<Rightarrow> (nat \<times> json) option" where
  "bad_item i [] = None"
| "bad_item i (JStr s # xs) = bad_item (Suc i) xs"
| "bad_item i (v # xs) = Some (i, v)"

fun str_items :: "json list \<Rightarrow> string list" where
  "str_items [] = []"
| "str_items (JStr s # xs) = s # str_items xs"
| "str_items (v # xs) = str_items xs"

fun intercalate :: "string \<Rightarrow> string list \<Rightarrow> string" where
  "intercalate sep [] = []"
| "intercalate sep [s] = s"
| "intercalate sep (s # t # ss) = s @ sep @ intercalate sep (t # ss)"

definition py_join :: "string \<Rightarrow> json \<Rightarrow> string + string" where
  "py_join sep v =
     (case py_iter v of
        Inl e \<Rightarrow> Inl ''can only join an iterable''
      | Inr xs \<Rightarrow>
          (case bad_item 0 xs of
             Some (i, x) \<Rightarrow>
               Inl (''sequence item '' @ show_nat i @ '': expected str instance, ''
                      @ type_name x @ '' found'')
           | None \<Rightarrow> Inr (intercalate sep (str_items xs))))"

text \<open>\<open>xs.extend(ys)\<close>: \<open>xs\<close> must be a list and \<open>ys\<close> iterable; the result is the new
  content of \<open>xs\<close>.\<close>

definition py_extend :: "json \<Rightarrow> json \<Rightarrow> string + json list" where
  "py_extend xs ys =
     (case xs of
        JArr items \<Rightarrow> sbind (py_iter ys) (\<lambda>more. Inr (items @ more))
      | _ \<Rightarrow> Inl (attribute_error xs ''extend''))"

text \<open>\<open>list(set(xs))\<close>: lists and dicts are unhashable. The order in which a set is
  iterated is not fixed by the language, so the resulting list is given by the parameter
  \<open>list_set\<close>.\<close>

fun hashable :: "json \<Rightarrow> bool" where
  "hashable (JArr xs) = False"
| "hashable (JObj kvs) = False"
| "hashable v = True"

definition py_list_set :: "(json list \<Rightarrow> json list) \<Rightarrow> json list \<Rightarrow> string + json list" where
  "py_list_set list_set xs =
     (case filter (\<lambda>x. \<not> hashable x) xs of
        [] \<Rightarrow> Inr (list_set xs)
      | v # _ \<Rightarrow> Inl (''unhashable type: '' @ sq (type_name v)))"

section \<open>Workflow state (types.py)\<close>

type_synonym datetime = nat
type_synonym embedding = "rat list"

record WorkflowState =
  youtube_url :: "string option"
  video_id :: "string option"
  transcript :: "string option"
  user_id :: "string option"
  summary :: json
  title :: json
  tone :: json
  key_points :: json
  tags :: json
  topic :: json
  category :: json
  confidence :: json
  subcategories :: json
  pinecone_id :: "string option"
  neo4j_id :: "string option"
  created_at :: "datetime option"
  processing_time :: "rat option"
  token_count :: "nat option"
  error :: "string option"
  error_step :: "string option"

text \<open>The state that both entry points build: the five arguments, every other field at its
  declared default.\<close>

definition initial_state ::
  "string \<Rightarrow> string \<Rightarrow> string \<Rightarrow> string \<Rightarrow> string \<Rightarrow> WorkflowState" where
  "initial_state url vid text uid tn =
     \<lparr>youtube_url = Some url, video_id = Some vid, transcript = Some text,
      user_id = Some uid, summary = JNull, title = JNull, tone = JStr tn,
      key_points = JArr [], tags = JArr [], topic = JNull, category = JNull,
      confidence = JNull, subcategories = JArr [], pinecone_id = None, neo4j_id = None,
      created_at = None, processing_time = None, token_count = None, error = None,
      error_step = None\<rparr>"

section \<open>External collaborators and the stores\<close>

text \<open>The arguments with which a prompt template is formatted before it goes to the
  language model.\<close>

datatype prompt =
    SummaryPrompt string nat json nat string
  | ClassificationPrompt json json string

text \<open>The parameters of the Cypher query of \<open>Neo4jService.store_summary\<close>.\<close>

record neo4j_params =
  p_video_id :: string
  p_user_id :: string
  p_title :: json
  p_summary :: json
  p_topic :: json
  p_category :: json
  p_confidence :: json
  p_subcategories :: json
  p_tags :: json
  p_key_points :: json
  p_tone :: json

text \<open>The graph database: nodes with an identity, a label and properties; typed
  relationships between node identities.\<close>

record graph =
  g_nodes :: "(nat \<times> string \<times> (string \<times> json) list) list"
  g_rels :: "(nat \<times> string \<times> nat) list"
  g_next :: nat

text \<open>What a run can change outside its state: the vector index, the graph database and
  the checkpoint store (the latest snapshot per thread id).\<close>

record world =
  vstore :: "string \<rightharpoonup> (embedding \<times> json)"
  gstore :: graph
  checkpoints :: "string \<rightharpoonup> WorkflowState"

text \<open>
  Everything the code calls but does not define. A call that can fail returns \<open>Inl\<close> of
  the exception's text (which may be empty).
  \<^item> \<open>encode\<close>, \<open>decode\<close>: the tokenizer;
  \<^item> \<open>llm_ainvoke\<close>: the language model, from prompt arguments to response text;
  \<^item> \<open>json_loads\<close>, \<open>list_set\<close>, \<open>md5_hexdigest\<close>, \<open>isoformat\<close>: library functions;
  \<^item> \<open>time_start\<close>, \<open>time_end\<close>: the two readings of \<open>time.time()\<close> that
    \<open>summarize_node\<close> uses; \<open>utcnow\<close>: the reading of \<open>datetime.utcnow()\<close>;
  \<^item> \<open>embedding_create\<close>: the embedding service; \<open>http_exception_str\<close>: the text of an
    \<open>HTTPException\<close> with the given status and detail;
  \<^item> \<open>upsert_error\<close>: whether the vector index refuses an upsert;
  \<^item> \<open>session_run\<close>: the graph database running the query on the current graph, giving
    the new graph and the returned rows;
  \<^item> \<open>put_error\<close>, \<open>get_error\<close>: whether the checkpoint store fails to write or read;
  \<^item> \<open>schema_error\<close>: what the graph library does with a state that does not fit the
    declared schema when it hands it to the next step: it raises, or passes it on.
\<close>

record env =
  encode :: "string \<Rightarrow> string + nat list"
  decode :: "nat list \<Rightarrow> string"
  llm_ainvoke :: "prompt \<Rightarrow> string + string"
  json_loads :: "string \<Rightarrow> string + json"
  list_set :: "json list \<Rightarrow> json list"
  md5_hexdigest :: "string \<Rightarrow> string"
  isoformat :: "datetime \<Rightarrow> string"
  time_start :: rat
  time_end :: rat
  utcnow :: datetime
  embedding_create :: "json \<Rightarrow> string + embedding"
  http_exception_str :: "nat \<Rightarrow> string \<Rightarrow> string"
  upsert_error :: "string \<Rightarrow> string option"
  session_run :: "neo4j_params \<Rightarrow> graph \<Rightarrow> string + graph \<times> string list"
  put_error :: "string \<Rightarrow> string option"
  get_error :: "string \<Rightarrow> string option"
  schema_error :: "WorkflowState \<Rightarrow> string option"

section \<open>Steps (nodes.py)\<close>

definition count_tokens :: "env \<Rightarrow> string \<Rightarrow> string + nat" where
  "count_tokens env text = sbind (encode env text) (\<lambda>toks. Inr (length toks))"

definition truncate_text :: "env \<Rightarrow> string \<Rightarrow> nat \<Rightarrow> string + string" where
  "truncate_text env text max_tokens =
     sbind (count_tokens env text) (\<lambda>tokens.
       if tokens \<le> max_tokens then Inr text
       else sbind (encode env text) (\<lambda>encoded.
              Inr (decode env (take max_tokens encoded))))"

text \<open>
  Each of the first four steps is a \<open>try\<close> block and a handler that writes the error
  channel. \<open>summarize_try\<close> is the block: everything that can raise comes before the first
  assignment (\<open>result.get\<close> raises on the first call or on none), so a failure leaves the
  state as it was.
\<close>

definition summarize_try :: "env \<Rightarrow> WorkflowState \<Rightarrow> string + WorkflowState" where
  "summarize_try env state =
     sbind (truncate_text env (or_str (transcript state) []) 4000) (\<lambda>truncated_transcript.
     sbind (count_tokens env truncated_transcript) (\<lambda>tokens.
     sbind (llm_ainvoke env
              (SummaryPrompt (or_str (video_id state) ''unknown'') tokens
                 (py_or (tone state) (JStr ''professional'')) 500 truncated_transcript))
       (\<lambda>content.
     sbind (SummaryOutputParser_parse (json_loads env) content) (\<lambda>result.
     sbind (py_get result ''summary'' (JStr [])) (\<lambda>v_summary.
     sbind (py_get result ''title'' (JStr ''Video Summary'')) (\<lambda>v_title.
     sbind (py_get result ''tone'' (JStr ''professional'')) (\<lambda>v_tone.
     sbind (py_get result ''key_points'' (JArr [])) (\<lambda>v_key_points.
     sbind (py_get result ''tags'' (JArr [])) (\<lambda>v_tags.
       Inr (state\<lparr>summary := v_summary, title := v_title, tone := v_tone,
                  key_points := v_key_points, tags := v_tags,
                  token_count := Some tokens,
                  processing_time := Some (time_end env - time_start env)\<rparr>))))))))))"

definition summarize_node :: "env \<Rightarrow> WorkflowState \<Rightarrow> WorkflowState" where
  "summarize_node env state =
     (case summarize_try env state of
        Inr state' \<Rightarrow> state'
      | Inl e \<Rightarrow> state\<lparr>error := Some e, error_step := Some ''summarize''\<rparr>)"

text \<open>
  \<open>classify_fetch\<close> is the part of the block before its first assignment. After the four
  classification fields are written, \<open>state.tags.extend\<close> and \<open>list(set(state.tags))\<close>
  can still raise, so a failure carries the state as far as it had been written.
\<close>

definition classify_fetch ::
  "env \<Rightarrow> WorkflowState \<Rightarrow> string + (json \<times> json \<times> json \<times> json \<times> json)" where
  "classify_fetch env state =
     sbind (py_join '', '' (key_points state)) (\<lambda>joined.
     sbind (llm_ainvoke env
              (ClassificationPrompt (py_or (title state) (JStr ''Unknown Video''))
                 (py_or (summary state) (JStr [])) joined))
       (\<lambda>content.
     sbind (ClassificationOutputParser_parse (json_loads env) content) (\<lambda>result.
     sbind (py_get result ''topic'' (JStr ''General'')) (\<lambda>v_topic.
     sbind (py_get result ''category'' (JStr ''Education'')) (\<lambda>v_category.
     sbind (py_get result ''confidence'' (JFloat (1 / 2))) (\<lambda>v_confidence.
     sbind (py_get result ''subcategories'' (JArr [])) (\<lambda>v_subcategories.
     sbind (py_get result ''tags'' (JArr [])) (\<lambda>new_tags.
       Inr (v_topic, v_category, v_confidence, v_subcategories, new_tags)))))))))"

definition classify_try ::
  "env \<Rightarrow> WorkflowState \<Rightarrow> (string \<times> WorkflowState) + WorkflowState" where
  "classify_try env state =
     (case classify_fetch env state of
        Inl e \<Rightarrow> Inl (e, state)
      | Inr (v_topic, v_category, v_confidence, v_subcategories, new_tags) \<Rightarrow>
          let s1 = state\<lparr>topic := v_topic, category := v_category,
                         confidence := v_confidence, subcategories := v_subcategories\<rparr>
          in (case py_extend (tags s1) new_tags of
                Inl e \<Rightarrow> Inl (e, s1)
              | Inr extended \<Rightarrow>
                  let s2 = s1\<lparr>tags := JArr extended\<rparr>
                  in (case py_list_set (list_set env) extended of
                        Inl e \<Rightarrow> Inl (e, s2)
                      | Inr deduped \<Rightarrow> Inr (s2\<lparr>tags := JArr deduped\<rparr>))))"

definition classify_node :: "env \<Rightarrow> WorkflowState \<Rightarrow> WorkflowState" where
  "classify_node env state =
     (case classify_try env state of
        Inr state' \<Rightarrow> state'
      | Inl (e, state') \<Rightarrow> state'\<lparr>error := Some e, error_step := Some ''classify''\<rparr>)"

text \<open>\<open>get_embedding\<close> (smart_summary.py) turns any failure of the embedding service
  into an \<open>HTTPException\<close> with status 500.\<close>

definition get_embedding :: "env \<Rightarrow> json \<Rightarrow> string + embedding" where
  "get_embedding env text =
     (case embedding_create env text of
        Inr v \<Rightarrow> Inr v
      | Inl e \<Rightarrow> Inl (http_exception_str env 500 (''Embedding error: '' @ e)))"

text \<open>\<open>PineconeService\<close> (pinecone_service.py).\<close>

definition PineconeService_generate_id :: "env \<Rightarrow> string \<Rightarrow> string \<Rightarrow> string" where
  "PineconeService_generate_id env vid uid = md5_hexdigest env (vid @ ''_'' @ uid)"

definition PineconeService_create_metadata ::
  "env \<Rightarrow> json \<Rightarrow> string \<Rightarrow> string \<Rightarrow> string + json" where
  "PineconeService_create_metadata env summary_data uid vid =
     sbind (py_get summary_data ''title'' (JStr [])) (\<lambda>v_title.
     sbind (py_get summary_data ''tone'' (JStr ''professional'')) (\<lambda>v_tone.
     sbind (py_get summary_data ''tags'' (JArr [])) (\<lambda>v_tags.
     sbind (py_get summary_data ''key_points'' (JArr [])) (\<lambda>v_key_points.
     sbind (py_get summary_data ''transcript_length'' (JInt 0)) (\<lambda>v_transcript_length.
     sbind (py_get summary_data ''summary'' (JStr [])) (\<lambda>v_summary.
     sbind (py_len v_summary) (\<lambda>summary_length.
       Inr (JObj [(''user_id'', JStr uid),
                  (''video_id'', JStr vid),
                  (''video_title'', v_title),
                  (''tone'', v_tone),
                  (''tags'', v_tags),
                  (''key_points'', v_key_points),
                  (''created_at'', JStr (isoformat env (utcnow env))),
                  (''transcript_length'', v_transcript_length),
                  (''summary_length'', JInt (int summary_length))]))))))))"

definition PineconeService_store_summary ::
  "env \<Rightarrow> world \<Rightarrow> json \<Rightarrow> string \<Rightarrow> string \<Rightarrow> embedding \<Rightarrow> string + world \<times> string" where
  "PineconeService_store_summary env w summary_data uid vid emb =
     (let vector_id = PineconeService_generate_id env vid uid
      in sbind (PineconeService_create_metadata env summary_data uid vid) (\<lambda>metadata.
           case upsert_error env vector_id of
             Some e \<Rightarrow> Inl e
           | None \<Rightarrow> Inr (w\<lparr>vstore := (vstore w)(vector_id \<mapsto> (emb, metadata))\<rparr>, vector_id)))"

definition pinecone_store_try ::
  "env \<Rightarrow> world \<Rightarrow> WorkflowState \<Rightarrow> string + world \<times> WorkflowState" where
  "pinecone_store_try env w state =
     sbind (get_embedding env (py_or (summary state) (JStr []))) (\<lambda>summary_embedding.
     sbind (py_len (py_or (summary state) (JStr []))) (\<lambda>summary_length.
       let summary_data =
             JObj [(''summary'', summary state),
                   (''title'', title state),
                   (''tone'', tone state),
                   (''key_points'', key_points state),
                   (''tags'', tags state),
                   (''topic'', topic state),
                   (''category'', category state),
                   (''confidence'', confidence state),
                   (''subcategories'', subcategories state),
                   (''transcript_length'', JInt (int (length (or_str (transcript state) [])))),
                   (''summary_length'', JInt (int summary_length))]
       in sbind (PineconeService_store_summary env w summary_data
                   (or_str (user_id state) ''anonymous'')
                   (or_str (video_id state) ''unknown'') summary_embedding)
            (\<lambda>(w', vector_id). Inr (w', state\<lparr>pinecone_id := Some vector_id\<rparr>))))"

definition pinecone_store_node :: "env \<Rightarrow> world \<Rightarrow> WorkflowState \<Rightarrow> world \<times> WorkflowState" where
  "pinecone_store_node env w state =
     (case pinecone_store_try env w state of
        Inr r \<Rightarrow> r
      | Inl e \<Rightarrow> (w, state\<lparr>error := Some e, error_step := Some ''pinecone_store''\<rparr>))"

text \<open>\<open>Neo4jService.store_summary\<close> (neo4j_service.py): run the query, return the
  \<open>video_id\<close> of the first returned row, or the argument when no row came back; an
  exception is logged and raised again.\<close>

definition Neo4jService_store_summary ::
  "env \<Rightarrow> world \<Rightarrow> neo4j_params \<Rightarrow> string + world \<times> string" where
  "Neo4jService_store_summary env w params =
     (case session_run env params (gstore w) of
        Inl e \<Rightarrow> Inl e
      | Inr (g', rows) \<Rightarrow>
          Inr (w\<lparr>gstore := g'\<rparr>, (case rows of [] \<Rightarrow> p_video_id params | r # _ \<Rightarrow> r)))"

definition neo4j_store_try ::
  "env \<Rightarrow> world \<Rightarrow> WorkflowState \<Rightarrow> string + world \<times> WorkflowState" where
  "neo4j_store_try env w state =
     sbind (Neo4jService_store_summary env w
              \<lparr>p_video_id = or_str (video_id state) ''unknown'',
               p_user_id = or_str (user_id state) ''anonymous'',
               p_title = py_or (title state) (JStr ''Unknown Video''),
               p_summary = py_or (summary state) (JStr []),
               p_topic = py_or (topic state) (JStr ''General''),
               p_category = py_or (category state) (JStr ''Education''),
               p_confidence = py_or (confidence state) (JFloat (1 / 2)),
               p_subcategories = subcategories state,
               p_tags = tags state,
               p_key_points = key_points state,
               p_tone = py_or (tone state) (JStr ''professional'')\<rparr>)
       (\<lambda>(w', graph_id). Inr (w', state\<lparr>neo4j_id := Some graph_id\<rparr>))"

definition neo4j_store_node :: "env \<Rightarrow> world \<Rightarrow> WorkflowState \<Rightarrow> world \<times> WorkflowState" where
  "neo4j_store_node env w state =
     (case neo4j_store_try env w state of
        Inr r \<Rightarrow> r
      | Inl e \<Rightarrow> (w, state\<lparr>error := Some e, error_step := Some ''neo4j_store''\<rparr>))"

text \<open>\<open>finalize_node\<close> has no handler: it sets the timestamp and then logs, and the log
  line of a run without error takes \<open>len(state.summary or '')\<close>, which raises for a
  summary without a length.\<close>

definition finalize_node :: "env \<Rightarrow> WorkflowState \<Rightarrow> string + WorkflowState" where
  "finalize_node env state =
     (let state' = state\<lparr>created_at := Some (utcnow env)\<rparr>
      in if truthy_str (error state') then Inr state'
         else sbind (py_len (py_or (summary state') (JStr []))) (\<lambda>n. Inr state'))"

section \<open>The workflow graph and its entry points (workflow.py)\<close>

text \<open>
  \<open>create_workflow\<close> registers five steps and makes \<open>summarize\<close> the entry point. It
  chains the steps by static edges, from \<open>summarize\<close> through \<open>classify\<close>,
  \<open>pinecone_store\<close> and \<open>neo4j_store\<close> to \<open>finalize\<close> and from there to \<open>END\<close>, and it
  gives each of the first four, in addition, a conditional edge: on to the next step if
  \<open>not state.error\<close>, else to \<open>END\<close>. \<open>None\<close> below is \<open>END\<close>.
\<close>

datatype node = Summarize | Classify | PineconeStore | Neo4jStore | Finalize

fun node_name :: "node \<Rightarrow> string" where
  "node_name Summarize = ''summarize''"
| "node_name Classify = ''classify''"
| "node_name PineconeStore = ''pinecone_store''"
| "node_name Neo4jStore = ''neo4j_store''"
| "node_name Finalize = ''finalize''"

fun static_edge :: "node \<Rightarrow> node option" where
  "static_edge Summarize = Some Classify"
| "static_edge Classify = Some PineconeStore"
| "static_edge PineconeStore = Some Neo4jStore"
| "static_edge Neo4jStore = Some Finalize"
| "static_edge Finalize = None"

fun conditional_edge :: "node \<Rightarrow> WorkflowState \<Rightarrow> node option" where
  "conditional_edge Summarize state =
     (if \<not> truthy_str (error state) then Some Classify else None)"
| "conditional_edge Classify state =
     (if \<not> truthy_str (error state) then Some PineconeStore else None)"
| "conditional_edge PineconeStore state =
     (if \<not> truthy_str (error state) then Some Neo4jStore else None)"
| "conditional_edge Neo4jStore state =
     (if \<not> truthy_str (error state) then Some Finalize else None)"
| "conditional_edge Finalize state = None"

definition entry_point :: node where
  "entry_point = Summarize"

text \<open>
  In the graph library every edge that leaves a step triggers its target once the step
  has run: a static edge whatever the state holds, a conditional edge by its test. The
  steps triggered after a step are the targets of both its edges, each once.
\<close>

fun targets :: "node option \<Rightarrow> node list" where
  "targets None = []"
| "targets (Some n) = [n]"

definition triggered :: "node \<Rightarrow> WorkflowState \<Rightarrow> node list" where
  "triggered n state = remdups (targets (static_edge n) @ targets (conditional_edge n state))"

text \<open>
  The library builds the input of the next step from the declared schema of
  \<open>WorkflowState\<close>. A state whose written fields have their declared types (a string or
  \<open>None\<close>, a list of strings, a float or \<open>None\<close>) passes as it is; for any other state
  the parameter \<open>schema_error\<close> says whether the library raises or passes it on (a
  coercion of the values is not modelled).
\<close>

fun optional_str :: "json \<Rightarrow> bool" where
  "optional_str JNull = True"
| "optional_str (JStr s) = True"
| "optional_str v = False"

fun is_str :: "json \<Rightarrow> bool" where
  "is_str (JStr s) = True"
| "is_str v = False"

fun list_of_str :: "json \<Rightarrow> bool" where
  "list_of_str (JArr xs) = list_all is_str xs"
| "list_of_str v = False"

fun optional_float :: "json \<Rightarrow> bool" where
  "optional_float JNull = True"
| "optional_float (JFloat r) = True"
| "optional_float v = False"

definition fits_schema :: "WorkflowState \<Rightarrow> bool" where
  "fits_schema state =
     (optional_str (summary state) \<and> optional_str (title state) \<and> optional_str (tone state)
      \<and> list_of_str (key_points state) \<and> list_of_str (tags state)
      \<and> optional_str (topic state) \<and> optional_str (category state)
      \<and> optional_float (confidence state) \<and> list_of_str (subcategories state))"

definition validate :: "env \<Rightarrow> WorkflowState \<Rightarrow> string option" where
  "validate env state = (if fits_schema state then None else schema_error env state)"

text \<open>
  A step is handed the state object and writes to it in place. \<open>node_fn\<close> gives the world
  and the state after the step, or, when the step raises, the text of the exception and
  the state object as the step left it: \<open>finalize_node\<close>, the only step without a
  handler, has written the timestamp before it can raise.
\<close>

fun node_fn ::
  "env \<Rightarrow> node \<Rightarrow> world \<Rightarrow> WorkflowState
     \<Rightarrow> (string \<times> WorkflowState) + world \<times> WorkflowState" where
  "node_fn env Summarize w state = Inr (w, summarize_node env state)"
| "node_fn env Classify w state = Inr (w, classify_node env state)"
| "node_fn env PineconeStore w state = Inr (pinecone_store_node env w state)"
| "node_fn env Neo4jStore w state = Inr (neo4j_store_node env w state)"
| "node_fn env Finalize w state =
     (case finalize_node env state of
        Inl e \<Rightarrow> Inl (e, state\<lparr>created_at := Some (utcnow env)\<rparr>)
      | Inr state' \<Rightarrow> Inr (w, state'))"

fun rank :: "node \<Rightarrow> nat" where
  "rank Summarize = 0"
| "rank Classify = 1"
| "rank PineconeStore = 2"
| "rank Neo4jStore = 3"
| "rank Finalize = 4"

text \<open>
  Running the graph from a step: invoke it; if it triggers no step the run ends;
  otherwise the state is checked against the schema and the triggered step runs. The
  result is the world after the run, the steps invoked in order, the final state or the
  text of the exception that ended the run, and the state object as the run left it.
\<close>

function run_from ::
  "env \<Rightarrow> node \<Rightarrow> world \<Rightarrow> WorkflowState \<Rightarrow> node list
     \<Rightarrow> world \<times> node list \<times> (string + WorkflowState) \<times> WorkflowState" where
  "run_from env n w state invoked =
     (case node_fn env n w state of
        Inl (e, left) \<Rightarrow> (w, invoked @ [n], Inl e, left)
      | Inr (w', state') \<Rightarrow>
          (case triggered n state' of
             [] \<Rightarrow> (w', invoked @ [n], Inr state', state')
           | n' # others \<Rightarrow>
               (case validate env state' of
                  Some e \<Rightarrow> (w', invoked @ [n], Inl e, state')
                | None \<Rightarrow> run_from env n' w' state' (invoked @ [n]))))"
  by pat_completeness auto
termination
  apply (relation "measure (\<lambda>(env, n, w, state, invoked). 4 - rank n)")
   apply simp
  subgoal for env n w state invoked x2 w' state' n' others
    by (cases n) (auto simp add: triggered_def split: if_splits)
  done

declare run_from.simps [simp del]

text \<open>
  Modelled from the spec: the graph library's \<open>ainvoke\<close> with a checkpointer. It runs the
  graph from the entry point on the state object it is given, which the steps mutate in
  place, and saves the final state under the thread id, overwriting the previous
  snapshot. Saving is best effort: a failure to save leaves the store and the result as
  they are. An exception that ends the run reaches the caller.
\<close>

type_synonym invoke =
  "WorkflowState \<Rightarrow> string
     \<Rightarrow> world \<times> node list \<times> (string + WorkflowState) \<times> WorkflowState"

definition workflow_graph_ainvoke :: "env \<Rightarrow> world \<Rightarrow> invoke" where
  "workflow_graph_ainvoke env w state thread_id =
     (case run_from env entry_point w state [] of
        (w', invoked, Inl e, left) \<Rightarrow> (w', invoked, Inl e, left)
      | (w', invoked, Inr result, left) \<Rightarrow>
          (case put_error env thread_id of
             Some e \<Rightarrow> (w', invoked, Inr result, left)
           | None \<Rightarrow>
               (w'\<lparr>checkpoints := (checkpoints w')(thread_id \<mapsto> result)\<rparr>, invoked,
                Inr result, left)))"

text \<open>
  The entry points. The global \<open>workflow_graph.ainvoke\<close> is the parameter \<open>ainvoke\<close>, so
  that what they do is stated for every behaviour of the graph library;
  \<open>workflow_graph_ainvoke env w\<close> is the one modelled above. Besides its result, \<open>ainvoke\<close>
  gives the \<open>initial_state\<close> object as the call left it: the handler writes the error
  to that same object and returns it. \<open>Inr\<close> is the returned state; \<open>Inl\<close> would be an
  exception leaving the entry point.
\<close>

definition run_workflow ::
  "invoke \<Rightarrow> string \<Rightarrow> string \<Rightarrow> string \<Rightarrow> string \<Rightarrow> string
     \<Rightarrow> world \<times> node list \<times> (string + WorkflowState)" where
  "run_workflow ainvoke url vid text uid tn =
     (let initial = initial_state url vid text uid tn
      in case ainvoke initial (''workflow_'' @ vid) of
           (w', invoked, Inr result, left) \<Rightarrow> (w', invoked, Inr result)
         | (w', invoked, Inl e, left) \<Rightarrow>
             (w', invoked, Inr (left\<lparr>error := Some e, error_step := Some ''workflow''\<rparr>)))"

definition run_workflow_with_checkpoint ::
  "invoke \<Rightarrow> string \<Rightarrow> string \<Rightarrow> string \<Rightarrow> string \<Rightarrow> string \<Rightarrow> string option
     \<Rightarrow> world \<times> node list \<times> (string + WorkflowState)" where
  "run_workflow_with_checkpoint ainvoke url vid text uid tn thread_id =
     (let thread = (case thread_id of None \<Rightarrow> ''workflow_'' @ vid | Some t \<Rightarrow> t);
          initial = initial_state url vid text uid tn
      in case ainvoke initial thread of
           (w', invoked, Inr result, left) \<Rightarrow> (w', invoked, Inr result)
         | (w', invoked, Inl e, left) \<Rightarrow>
             (w', invoked, Inr (left\<lparr>error := Some e, error_step := Some ''workflow''\<rparr>)))"

text \<open>
  Modelled from the spec: the checkpoint store's \<open>get\<close>. It returns the latest snapshot
  of the thread, or nothing for an unknown thread, or raises on a persistence error. A
  snapshot is a run state, a mapping that is never empty, so \<open>if latest_state\<close> is the
  test for a snapshot having been found.
\<close>

definition memory_get :: "env \<Rightarrow> world \<Rightarrow> string \<Rightarrow> string + WorkflowState option" where
  "memory_get env w thread_id =
     (case get_error env thread_id of
        Some e \<Rightarrow> Inl e
      | None \<Rightarrow> Inr (checkpoints w thread_id))"

definition get_workflow_status :: "env \<Rightarrow> world \<Rightarrow> string \<Rightarrow> (string \<times> json) list" where
  "get_workflow_status env w thread_id =
     (case memory_get env w thread_id of
        Inr (Some latest_state) \<Rightarrow>
          [(''thread_id'', JStr thread_id),
           (''completed'', JBool True),
           (''error'', opt_json (error latest_state)),
           (''error_step'', opt_json (error_step latest_state)),
           (''video_id'', opt_json (video_id latest_state)),
           (''summary'', summary latest_state),
           (''topic'', topic latest_state),
           (''category'', category latest_state),
           (''pinecone_id'', opt_json (pinecone_id latest_state)),
           (''neo4j_id'', opt_json (neo4j_id latest_state))]
      | Inr None \<Rightarrow>
          [(''thread_id'', JStr thread_id),
           (''completed'', JBool False),
           (''error'', JStr ''Thread not found'')]
      | Inl e \<Rightarrow>
          [(''thread_id'', JStr thread_id),
           (''completed'', JBool False),
           (''error'', JStr e)])"

section \<open>The graph query of \<open>Neo4jService.store_summary\<close> (neo4j_service.py)\<close>

text \<open>The arguments of \<open>store_summary\<close>, with the types its signature declares.\<close>

record store_args =
  a_video_id :: string
  a_user_id :: string
  a_title :: string
  a_summary :: string
  a_topic :: string
  a_category :: string
  a_confidence :: rat
  a_subcategories :: "string list"
  a_tags :: "string list"
  a_key_points :: "string list"
  a_tone :: string

text \<open>
  The clauses of the query, after the Cypher manual. \<open>MERGE\<close> of a node pattern binds the
  node with that label and property if there is one (under the uniqueness constraints
  there is at most one; the first is taken) and creates it otherwise. \<open>CREATE\<close> always
  makes a new node. \<open>MERGE\<close> of a relationship adds it unless it is there. \<open>SET\<close>
  overwrites the named properties of a node.
\<close>

definition create_node :: "string \<Rightarrow> string \<Rightarrow> json \<Rightarrow> graph \<Rightarrow> nat \<times> graph" where
  "create_node label key v g =
     (g_next g,
      g\<lparr>g_nodes := g_nodes g @ [(g_next g, label, [(key, v)])], g_next := Suc (g_next g)\<rparr>)"

definition merge_node :: "string \<Rightarrow> string \<Rightarrow> json \<Rightarrow> graph \<Rightarrow> nat \<times> graph" where
  "merge_node label key v g =
     (case find (\<lambda>(i, l, ps). l = label \<and> map_of ps key = Some v) (g_nodes g) of
        Some (i, l, ps) \<Rightarrow> (i, g)
      | None \<Rightarrow> create_node label key v g)"

definition merge_rel :: "nat \<Rightarrow> string \<Rightarrow> nat \<Rightarrow> graph \<Rightarrow> graph" where
  "merge_rel a ty b g =
     (if (a, ty, b) \<in> set (g_rels g) then g else g\<lparr>g_rels := g_rels g @ [(a, ty, b)]\<rparr>)"

definition set_props :: "nat \<Rightarrow> (string \<times> json) list \<Rightarrow> graph \<Rightarrow> graph" where
  "set_props i kvs g =
     g\<lparr>g_nodes :=
         map (\<lambda>(j, l, ps).
                if j = i then (j, l, filter (\<lambda>kv. map_of kvs (fst kv) = None) ps @ kvs)
                else (j, l, ps))
           (g_nodes g)\<rparr>"

text \<open>\<open>UNWIND\<close> replaces every row by one row per element of the list, so an empty list
  leaves no row, and the clauses after it run once per row.\<close>

definition unwind :: "'r list \<Rightarrow> 'a list \<Rightarrow> 'a list" where
  "unwind rows xs = concat (map (\<lambda>r. xs) rows)"

definition subcategory_row :: "nat \<Rightarrow> nat \<Rightarrow> string \<Rightarrow> graph \<Rightarrow> graph" where
  "subcategory_row v t subcat g =
     (let (sc, g1) = merge_node ''Subcategory'' ''name'' (JStr subcat) g
      in merge_rel sc ''BELONGS_TO'' t (merge_rel v ''HAS_SUBCATEGORY'' sc g1))"

definition tag_row :: "nat \<Rightarrow> string \<Rightarrow> graph \<Rightarrow> graph" where
  "tag_row v tag_name g =
     (let (tg, g1) = merge_node ''Tag'' ''name'' (JStr tag_name) g
      in merge_rel v ''HAS_TAG'' tg g1)"

definition key_point_row :: "nat \<Rightarrow> string \<Rightarrow> graph \<Rightarrow> graph" where
  "key_point_row v point g =
     (let (kp, g1) = create_node ''KeyPoint'' ''text'' (JStr point) g
      in merge_rel v ''HAS_KEY_POINT'' kp g1)"

text \<open>The query, clause by clause; \<open>now\<close> is the value of \<open>datetime()\<close>. It returns the
  new graph and the \<open>video_id\<close> column of the returned rows.\<close>

definition store_summary_query :: "datetime \<Rightarrow> store_args \<Rightarrow> graph \<Rightarrow> graph \<times> string list" where
  "store_summary_query now a g0 =
     (let (v, g1) = merge_node ''Video'' ''video_id'' (JStr (a_video_id a)) g0;
          g2 = set_props v [(''title'', JStr (a_title a)),
                            (''summary'', JStr (a_summary a)),
                            (''tone'', JStr (a_tone a)),
                            (''confidence'', JFloat (a_confidence a)),
                            (''created_at'', JInt (int now))] g1;
          (u, g3) = merge_node ''User'' ''user_id'' (JStr (a_user_id a)) g2;
          (t, g4) = merge_node ''Topic'' ''name'' (JStr (a_topic a)) g3;
          (c, g5) = merge_node ''Category'' ''name'' (JStr (a_category a)) g4;
          g6 = merge_rel u ''CREATED'' v g5;
          g7 = merge_rel v ''HAS_TOPIC'' t g6;
          g8 = merge_rel v ''IN_CATEGORY'' c g7;
          g9 = merge_rel t ''BELONGS_TO'' c g8;
          rows1 = unwind [()] (a_subcategories a);
          g10 = fold (subcategory_row v t) rows1 g9;
          rows2 = unwind rows1 (a_tags a);
          g11 = fold (tag_row v) rows2 g10;
          rows3 = unwind rows2 (a_key_points a);
          g12 = fold (key_point_row v) rows3 g11
      in (g12, map (\<lambda>r. a_video_id a) rows3))"

definition empty_graph :: graph where
  "empty_graph = \<lparr>g_nodes = [], g_rels = [], g_next = 0\<rparr>"

definition args0 :: store_args where
  "args0 =
     \<lparr>a_video_id = ''vid1'', a_user_id = ''user1'', a_title = ''A title'',
      a_summary = ''A summary'', a_topic = ''Cooking'', a_category = ''Lifestyle'',
      a_confidence = 9 / 10, a_subcategories = [''Baking''], a_tags = [''bread''],
      a_key_points = [''Knead the dough''], a_tone = ''professional''\<rparr>"

section \<open>A concrete environment\<close>

text \<open>
  Collaborators that all succeed: one token per character, a language model that answers
  with the empty object, a database that returns one row, a graph library that raises on
  a state that does not fit the schema. The others differ from it in one collaborator:
  \<open>llm_down\<close> has a language model that cannot be reached, \<open>graph_down\<close> a graph
  database that refuses the query, \<open>store_down\<close> a checkpoint store that fails to write
  and to read, and \<open>odd_summary\<close> a response whose \<open>summary\<close> is a number.
\<close>

definition env0 :: env where
  "env0 =
     \<lparr>encode = (\<lambda>s. Inr (map of_char s)),
      decode = map char_of,
      llm_ainvoke = (\<lambda>p. Inr ''{}''),
      json_loads = loads0,
      list_set = remdups,
      md5_hexdigest = (\<lambda>s. ''md5:'' @ s),
      isoformat = show_nat,
      time_start = 10,
      time_end = 12,
      utcnow = 1000,
      embedding_create = (\<lambda>v. Inr [0, 1]),
      http_exception_str = (\<lambda>status detail. show_nat status @ '': '' @ detail),
      upsert_error = (\<lambda>i. None),
      session_run = (\<lambda>p g. Inr (g, [p_video_id p])),
      put_error = (\<lambda>t. None),
      get_error = (\<lambda>t. None),
      schema_error = (\<lambda>s. Some ''1 validation error for WorkflowState'')\<rparr>"

definition llm_down :: env where
  "llm_down = env0\<lparr>llm_ainvoke := (\<lambda>p. Inl ''Connection error.'')\<rparr>"

definition graph_down :: env where
  "graph_down = env0\<lparr>session_run := (\<lambda>p g. Inl ''ServiceUnavailable'')\<rparr>"

definition store_down :: env where
  "store_down = env0\<lparr>put_error := (\<lambda>t. Some ''disk full''),
                      get_error := (\<lambda>t. Some ''connection lost'')\<rparr>"


definition world0 :: world where
  "world0 = \<lparr>vstore = Map.empty, gstore = empty_graph, checkpoints = Map.empty\<rparr>"

definition world1 :: world where
  "world1 = world0\<lparr>checkpoints := [''t1'' \<mapsto> initial_state ''u'' ''v1'' ''hello'' ''bob'' ''casual'']\<rparr>"

text \<open>\<open>init0\<close> is the state the entry points build for one fixed request.\<close>

definition init0 :: WorkflowState where
  "init0 = initial_state ''u'' ''v1'' ''hello'' ''bob'' ''casual''"

section \<open>Observations used in the statements\<close>

text \<open>
  Of the result of an entry point: the steps that were invoked, and the state that was
  returned, if one was.
\<close>

definition invoked_steps :: "world \<times> node list \<times> (string + WorkflowState) \<Rightarrow> node list" where
  "invoked_steps r = fst (snd r)"

definition returned :: "world \<times> node list \<times> (string + WorkflowState) \<Rightarrow> WorkflowState option" where
  "returned r = (case snd (snd r) of Inr s \<Rightarrow> Some s | Inl e \<Rightarrow> None)"


text \<open>
  The status that \<open>get_workflow_status\<close> reports for a snapshot: its eight reported
  fields under \<open>completed = True\<close>.
\<close>

definition status_of :: "string \<Rightarrow> WorkflowState \<Rightarrow> (string \<times> json) list" where
  "status_of thread_id s =
     [(''thread_id'', JStr thread_id),
      (''completed'', JBool True),
      (''error'', opt_json (error s)),
      (''error_step'', opt_json (error_step s)),
      (''video_id'', opt_json (video_id s)),
      (''summary'', summary s),
      (''topic'', topic s),
      (''category'', category s),
      (''pinecone_id'', opt_json (pinecone_id s)),
      (''neo4j_id'', opt_json (neo4j_id s))]"

text \<open>
  The number of nodes of the graph that carry a given label.
\<close>

definition count_label :: "string \<Rightarrow> graph \<Rightarrow> nat" where
  "count_label l g = length (filter (\<lambda>n. fst (snd n) = l) (g_nodes g))"

section \<open>Properties of the output parsers\<close>

lemmas str_defs = str_contains_def str_find_def str_rfind_def str_slice_def clamp_index_def
  str_strip_def isspace_def

lemmas parser_defs = SummaryOutputParser_parse_def SummaryOutputParser_try_def
  ClassificationOutputParser_parse_def ClassificationOutputParser_try_def
  summary_default_def classification_default_def json_candidate_def loads0_def

text \<open>
  C2. The claim: the Summarize parser returns the parsed contents of a fenced \<open>```json\<close>
  block if there is one, else the parse of the text from the first \<open>{\<close> to the last
  \<open>}\<close>, else the default object. On the text \<open>```json{}\<close>, whose fence is never closed,
  \<open>text.find("```", 7)\<close> is \<open>-1\<close> and the slice \<open>text[7:-1]\<close> loses the last character:
  the parser hands \<open>{\<close> to \<open>json.loads\<close> and returns the default object, although both
  the rest of the block and the text from the first to the last brace are the empty
  object \<open>{}\<close>, which parses. With the fence closed the parser returns that object.
\<close>

theorem C2_unclosed_fence:
  "SummaryOutputParser_parse loads0 ''```json{}'' =
     Inr (JObj [(''summary'', JStr ''```json{}''), (''title'', JStr ''Video Summary''),
                (''tone'', JStr ''professional''), (''key_points'', JArr []),
                (''tags'', JArr [])])
   \<and> str_slice ''```json{}'' 7 (str_find ''```json{}'' ''```'' 7) = ''{''
   \<and> loads0 ''{}'' = Inr (JObj [])
   \<and> SummaryOutputParser_parse loads0 ''```json{}```'' = Inr (JObj [])"
  by (simp add: str_defs parser_defs)

text \<open>
  C5, as claimed: on a text that reaches the fallback, the Classify parser returns a
  default object that holds the raw text. It does not: on \<open>hello\<close> it returns the fixed
  classification default, in which the text occurs nowhere, while the Summarize parser
  keeps the text in \<open>summary\<close>.
\<close>

theorem C5_counterexample:
  "ClassificationOutputParser_parse loads0 ''hello'' =
     Inr (JObj [(''topic'', JStr ''General''), (''category'', JStr ''Education''),
                (''confidence'', JFloat (1 / 2)), (''subcategories'', JArr []),
                (''tags'', JArr [])])
   \<and> SummaryOutputParser_parse loads0 ''hello'' =
     Inr (JObj [(''summary'', JStr ''hello''), (''title'', JStr ''Video Summary''),
                (''tone'', JStr ''professional''), (''key_points'', JArr []),
                (''tags'', JArr [])])"
  by (simp add: str_defs parser_defs)

text \<open>
  C5, amended: both parsers pick the branch by the same tests, hand the same text to
  \<open>json.loads\<close> and return its result when it parses; otherwise each returns its own
  default: the Summarize parser the object with the raw text in \<open>summary\<close>, the Classify
  parser the fixed object with topic General, category Education, confidence 0.5 and no
  subcategories or tags, which does not depend on the text.
\<close>

theorem C5_same_branches:
  "SummaryOutputParser_parse loads text =
     Inr (case json_candidate text of
            None \<Rightarrow> summary_default text
          | Some json_str \<Rightarrow>
              (case loads json_str of Inr v \<Rightarrow> v | Inl e \<Rightarrow> summary_default text))
   \<and> ClassificationOutputParser_parse loads text =
     Inr (case json_candidate text of
            None \<Rightarrow> classification_default
          | Some json_str \<Rightarrow>
              (case loads json_str of Inr v \<Rightarrow> v | Inl e \<Rightarrow> classification_default))"
  by (simp add: SummaryOutputParser_parse_def SummaryOutputParser_try_def
      ClassificationOutputParser_parse_def ClassificationOutputParser_try_def
      json_candidate_def Let_def split: sum.splits)

theorem C5_same_branches_witness:
  "json_candidate ''x{}y'' = Some ''{}''
   \<and> SummaryOutputParser_parse loads0 ''x{}y'' = Inr (JObj [])
   \<and> ClassificationOutputParser_parse loads0 ''x{}y'' = Inr (JObj [])
   \<and> json_candidate ''hello'' = None
   \<and> ClassificationOutputParser_parse loads0 ''hello'' = Inr classification_default"
  using C5_same_branches [of loads0 "''x{}y''"] C5_same_branches [of loads0 "''hello''"]
  by (simp add: str_defs json_candidate_def loads0_def)

text \<open>
  C6. Both parsers are total and never raise: for every behaviour of \<open>json.loads\<close> and
  every text each returns a value, and whenever its \<open>try\<close> block raises, that value is
  its default object.
\<close>

theorem C6_parsers_total:
  "(\<exists>v. SummaryOutputParser_parse loads text = Inr v)
   \<and> (\<exists>v. ClassificationOutputParser_parse loads text = Inr v)
   \<and> (\<forall>e. SummaryOutputParser_try loads text = Inl e \<longrightarrow>
          SummaryOutputParser_parse loads text = Inr (summary_default text))
   \<and> (\<forall>e. ClassificationOutputParser_try loads text = Inl e \<longrightarrow>
          ClassificationOutputParser_parse loads text = Inr classification_default)"
  by (simp add: SummaryOutputParser_parse_def ClassificationOutputParser_parse_def
      split: sum.splits)

theorem C6_parsers_total_witness:
  "SummaryOutputParser_try loads0 ''```json{}'' =
     Inl ''Expecting property name enclosed in double quotes: line 1 column 2 (char 1)''
   \<and> SummaryOutputParser_parse loads0 ''```json{}'' = Inr (summary_default ''```json{}'')
   \<and> ClassificationOutputParser_try loads0 ''```json{}'' =
     Inl ''Expecting property name enclosed in double quotes: line 1 column 2 (char 1)''
   \<and> ClassificationOutputParser_parse loads0 ''```json{}'' = Inr classification_default"
proof -
  have s: "SummaryOutputParser_try loads0 ''```json{}'' =
     Inl ''Expecting property name enclosed in double quotes: line 1 column 2 (char 1)''"
    by (simp add: str_defs SummaryOutputParser_try_def loads0_def)
  have c: "ClassificationOutputParser_try loads0 ''```json{}'' =
     Inl ''Expecting property name enclosed in double quotes: line 1 column 2 (char 1)''"
    by (simp add: str_defs ClassificationOutputParser_try_def loads0_def)
  from C6_parsers_total [of loads0 "''```json{}''"] s c show ?thesis by blast
qed

section \<open>Properties of the steps\<close>

lemmas py_defs = sbind_def py_or_def or_str_def py_join_def py_extend_def py_list_set_def
  attribute_error_def sq_def

lemmas step_defs = count_tokens_def truncate_text_def summarize_try_def summarize_node_def
  classify_fetch_def classify_try_def classify_node_def get_embedding_def
  PineconeService_generate_id_def PineconeService_create_metadata_def
  PineconeService_store_summary_def pinecone_store_try_def pinecone_store_node_def
  Neo4jService_store_summary_def neo4j_store_try_def neo4j_store_node_def finalize_node_def

lemma summarize_frame:
  "summarize_try env s = Inr s' \<Longrightarrow>
   s' = s\<lparr>summary := summary s', title := title s', tone := tone s',
          key_points := key_points s', tags := tags s', token_count := token_count s',
          processing_time := Some (time_end env - time_start env)\<rparr>"
  by (auto simp add: summarize_try_def sbind_def split: sum.splits)

lemma summarize_node_frame:
  "summarize_node env s =
     s\<lparr>summary := summary (summarize_node env s), title := title (summarize_node env s),
       tone := tone (summarize_node env s), key_points := key_points (summarize_node env s),
       tags := tags (summarize_node env s), token_count := token_count (summarize_node env s),
       processing_time := processing_time (summarize_node env s),
       error := error (summarize_node env s), error_step := error_step (summarize_node env s)\<rparr>"
proof (cases "summarize_try env s")
  case (Inl e)
  then show ?thesis by (simp add: summarize_node_def)
next
  case (Inr s')
  from summarize_frame [OF Inr] have "s' = s\<lparr>summary := summary s', title := title s', tone := tone s',
          key_points := key_points s', tags := tags s', token_count := token_count s',
          processing_time := processing_time s', error := error s', error_step := error_step s'\<rparr>"
    by (cases s, cases s') simp
  with Inr show ?thesis by (simp add: summarize_node_def)
qed


lemma classify_frame:
  "classify_node env s =
     s\<lparr>topic := topic (classify_node env s), category := category (classify_node env s),
       confidence := confidence (classify_node env s),
       subcategories := subcategories (classify_node env s),
       tags := tags (classify_node env s), error := error (classify_node env s),
       error_step := error_step (classify_node env s)\<rparr>"
  by (auto simp add: classify_node_def classify_try_def Let_def split: sum.splits prod.splits)



lemma finalize_frame:
  "finalize_node env s = Inr s' \<Longrightarrow> s' = s\<lparr>created_at := Some (utcnow env)\<rparr>"
  by (auto simp add: finalize_node_def sbind_def Let_def split: sum.splits if_splits)

section \<open>Properties of the executor\<close>

text \<open>
  The conditional edge of a step names the target of its static edge or \<open>END\<close>, so the
  steps triggered after a step are the target of its static edge, whatever the state.
\<close>

lemma triggered_static: "triggered n s = targets (static_edge n)"
  by (cases n) (simp_all add: triggered_def)

lemma run_from_Summarize:
  "run_from env Summarize w s tr =
     (case validate env (summarize_node env s) of
        Some e \<Rightarrow> (w, tr @ [Summarize], Inl e, summarize_node env s)
      | None \<Rightarrow> run_from env Classify w (summarize_node env s) (tr @ [Summarize]))"
  by (subst run_from.simps) (simp add: triggered_static)

lemma run_from_Classify:
  "run_from env Classify w s tr =
     (case validate env (classify_node env s) of
        Some e \<Rightarrow> (w, tr @ [Classify], Inl e, classify_node env s)
      | None \<Rightarrow> run_from env PineconeStore w (classify_node env s) (tr @ [Classify]))"
  by (subst run_from.simps) (simp add: triggered_static)

lemma run_from_PineconeStore:
  "run_from env PineconeStore w s tr =
     (case pinecone_store_node env w s of
        (w', s') \<Rightarrow>
          (case validate env s' of
             Some e \<Rightarrow> (w', tr @ [PineconeStore], Inl e, s')
           | None \<Rightarrow> run_from env Neo4jStore w' s' (tr @ [PineconeStore])))"
  by (subst run_from.simps) (simp add: triggered_static split: prod.splits)

lemma run_from_Neo4jStore:
  "run_from env Neo4jStore w s tr =
     (case neo4j_store_node env w s of
        (w', s') \<Rightarrow>
          (case validate env s' of
             Some e \<Rightarrow> (w', tr @ [Neo4jStore], Inl e, s')
           | None \<Rightarrow> run_from env Finalize w' s' (tr @ [Neo4jStore])))"
  by (subst run_from.simps) (simp add: triggered_static split: prod.splits)

lemma run_from_Finalize:
  "run_from env Finalize w s tr =
     (case finalize_node env s of
        Inl e \<Rightarrow> (w, tr @ [Finalize], Inl e, s\<lparr>created_at := Some (utcnow env)\<rparr>)
      | Inr s' \<Rightarrow> (w, tr @ [Finalize], Inr s', s'))"
  by (subst run_from.simps) (simp add: triggered_static split: sum.splits)

lemmas run_from_node = run_from_Summarize run_from_Classify run_from_PineconeStore
  run_from_Neo4jStore run_from_Finalize

lemmas eval_defs = step_defs py_defs str_defs parser_defs initial_state_def Let_def

lemmas run_defs = eval_defs run_workflow_def run_workflow_with_checkpoint_def
  workflow_graph_ainvoke_def entry_point_def run_from_node validate_def fits_schema_def
  invoked_steps_def returned_def




text \<open>
  C1. The claim: once the error channel is non-empty the Executor invokes no further
  step, the later steps leave their fields at the defaults, and the returned error and
  error_step are those of the first failure. \<open>create_workflow\<close> adds the conditional
  edges that would stop the run and leaves the static edges in, so every step runs on
  every request. With a language model that cannot be reached, Summarize fails and sets
  error and error_step; its conditional edge then says \<open>END\<close>, its static edge says
  Classify; all five steps are invoked, the vector step overwrites the error and leaves
  error_step as "pinecone_store" (it takes the length of the missing summary), the
  graph step writes neo4j_id and Finalize the timestamp.
\<close>

theorem C1_steps_after_failure:
  "error (summarize_node llm_down init0) = Some ''Connection error.''
   \<and> error_step (summarize_node llm_down init0) = Some ''summarize''
   \<and> conditional_edge Summarize (summarize_node llm_down init0) = None
   \<and> static_edge Summarize = Some Classify
   \<and> invoked_steps (run_workflow (workflow_graph_ainvoke llm_down world0)
                      ''u'' ''v1'' ''hello'' ''bob'' ''casual'')
     = [Summarize, Classify, PineconeStore, Neo4jStore, Finalize]
   \<and> map_option (\<lambda>s. (error_step s, neo4j_id s, created_at s))
       (returned (run_workflow (workflow_graph_ainvoke llm_down world0)
                    ''u'' ''v1'' ''hello'' ''bob'' ''casual''))
     = Some (Some ''pinecone_store'', Some ''v1'', Some 1000)"
  by (simp add: run_defs init0_def llm_down_def env0_def world0_def)

text \<open>
  C3, as claimed: when the vector step succeeds and the graph step fails, error_step is
  "graph_store". The step's name in the code is "neo4j_store", and that is what
  error_step holds on the fixed request with the graph database down; pinecone_id is
  set and neo4j_id is not.
\<close>

theorem C3_counterexample:
  "map_option (\<lambda>s. (pinecone_id s, neo4j_id s, error_step s))
     (returned (run_workflow (workflow_graph_ainvoke graph_down world0)
                  ''u'' ''v1'' ''hello'' ''bob'' ''casual''))
     = Some (Some ''md5:v1_bob'', None, Some ''neo4j_store'')
   \<and> ''neo4j_store'' \<noteq> ''graph_store''"
  by (simp add: run_defs graph_down_def env0_def world0_def)

text \<open>Lemmas for C3: what a successful vector step and a failing graph step leave.\<close>

lemma pinecone_success:
  assumes "pinecone_store_try env w s = Inr (w1, s1)"
  shows "\<exists>vector_id. s1 = s\<lparr>pinecone_id := Some vector_id\<rparr> \<and> vstore w1 vector_id \<noteq> None"
  using assms
  by (auto simp add: pinecone_store_try_def PineconeService_store_summary_def sbind_def Let_def
      split: sum.splits option.splits prod.splits)

lemma neo4j_failure:
  "neo4j_store_try env w s = Inl e \<Longrightarrow>
   neo4j_store_node env w s = (w, s\<lparr>error := Some e, error_step := Some ''neo4j_store''\<rparr>)"
  by (simp add: neo4j_store_node_def)

lemma summarize_keeps_neo4j_id: "neo4j_id (summarize_node env s) = neo4j_id s"
  by (subst summarize_node_frame) simp

lemma classify_keeps_neo4j_id: "neo4j_id (classify_node env s) = neo4j_id s"
  by (subst classify_frame) simp

lemma run_from_Finalize_returns:
  assumes "run_from env Finalize w s tr = (w', invoked, Inr s', left)"
  shows "w' = w \<and> invoked = tr @ [Finalize] \<and> s' = s\<lparr>created_at := Some (utcnow env)\<rparr>"
proof (cases "finalize_node env s")
  case (Inl e)
  with assms show ?thesis by (simp add: run_from_Finalize)
next
  case (Inr t)
  from finalize_frame [OF Inr] Inr assms show ?thesis by (simp add: run_from_Finalize)
qed

text \<open>
  C3, amended: for every run through the entry point that ends with a final state, in
  which the vector step succeeds and the graph step then fails, the returned state has
  pinecone_id set, neo4j_id unset, error the text of the failure and error_step equal
  to "neo4j_store"; the vector index still holds the record under that id when the run
  has ended: nothing removes it. All five steps have been invoked.
\<close>

theorem C3_orphan_vector:
  assumes "workflow_graph_ainvoke env w (initial_state url vid text uid tn) (''workflow_'' @ vid)
           = (w', invoked, Inr s', left)"
    and "pinecone_store_try env w
           (classify_node env (summarize_node env (initial_state url vid text uid tn)))
         = Inr (w1, s1)"
    and "neo4j_store_try env w1 s1 = Inl e"
  shows "run_workflow (workflow_graph_ainvoke env w) url vid text uid tn = (w', invoked, Inr s')
         \<and> invoked = [Summarize, Classify, PineconeStore, Neo4jStore, Finalize]
         \<and> (\<exists>vector_id. pinecone_id s' = Some vector_id \<and> vstore w' vector_id \<noteq> None)
         \<and> neo4j_id s' = None \<and> error s' = Some e \<and> error_step s' = Some ''neo4j_store''"
proof -
  define s2 where "s2 = classify_node env (summarize_node env (initial_state url vid text uid tn))"
  have n2: "neo4j_id s2 = None"
    by (simp add: s2_def classify_keeps_neo4j_id summarize_keeps_neo4j_id initial_state_def)
  from assms(2) have p: "pinecone_store_try env w s2 = Inr (w1, s1)"
    by (simp add: s2_def)
  from pinecone_success [OF p] obtain vector_id where
    s1: "s1 = s2\<lparr>pinecone_id := Some vector_id\<rparr>" and v: "vstore w1 vector_id \<noteq> None"
    by blast
  define s4 where "s4 = s1\<lparr>error := Some e, error_step := Some ''neo4j_store''\<rparr>"
  from assms(1) obtain w0 where
    run: "run_from env Summarize w (initial_state url vid text uid tn) [] = (w0, invoked, Inr s', left)"
    and w': "vstore w' = vstore w0"
    by (auto simp add: workflow_graph_ainvoke_def entry_point_def
        split: prod.splits sum.splits option.splits)
  from run p neo4j_failure [OF assms(3)]
  have fin: "run_from env Finalize w1 s4 [Summarize, Classify, PineconeStore, Neo4jStore]
             = (w0, invoked, Inr s', left)"
    by (simp add: run_from_Summarize run_from_Classify run_from_PineconeStore
        run_from_Neo4jStore pinecone_store_node_def s2_def s4_def split: option.splits)
  from run_from_Finalize_returns [OF fin]
  have r: "w0 = w1" "invoked = [Summarize, Classify, PineconeStore, Neo4jStore, Finalize]"
    "s' = s4\<lparr>created_at := Some (utcnow env)\<rparr>"
    by simp_all
  from r s1 n2 v w' have "pinecone_id s' = Some vector_id" "vstore w' vector_id \<noteq> None"
    "neo4j_id s' = None" "error s' = Some e" "error_step s' = Some ''neo4j_store''"
    by (simp_all add: s4_def)
  moreover from assms(1)
  have "run_workflow (workflow_graph_ainvoke env w) url vid text uid tn = (w', invoked, Inr s')"
    by (simp add: run_workflow_def Let_def)
  ultimately show ?thesis using r(2) by blast
qed

theorem C3_orphan_vector_witness:
  "(\<exists>w' invoked s' left.
      workflow_graph_ainvoke graph_down world0 init0 ''workflow_v1'' = (w', invoked, Inr s', left))
   \<and> (\<exists>w1 s1. pinecone_store_try graph_down world0
                  (classify_node graph_down (summarize_node graph_down init0)) = Inr (w1, s1)
         \<and> neo4j_store_try graph_down w1 s1 = Inl ''ServiceUnavailable'')
   \<and> (\<exists>w' s' vector_id.
         run_workflow (workflow_graph_ainvoke graph_down world0)
           ''u'' ''v1'' ''hello'' ''bob'' ''casual''
         = (w', [Summarize, Classify, PineconeStore, Neo4jStore, Finalize], Inr s')
         \<and> pinecone_id s' = Some vector_id \<and> vstore w' vector_id \<noteq> None
         \<and> neo4j_id s' = None \<and> error s' = Some ''ServiceUnavailable''
         \<and> error_step s' = Some ''neo4j_store'')"
proof -
  have "\<exists>w' invoked s' left.
      workflow_graph_ainvoke graph_down world0 init0 ''workflow_v1'' = (w', invoked, Inr s', left)"
    by (simp add: run_defs init0_def graph_down_def env0_def world0_def)
  then obtain w' invoked s' left where
    a: "workflow_graph_ainvoke graph_down world0 init0 ''workflow_v1'' = (w', invoked, Inr s', left)"
    by blast
  have "\<exists>w1 s1. pinecone_store_try graph_down world0
                  (classify_node graph_down (summarize_node graph_down init0)) = Inr (w1, s1)"
    by (simp add: eval_defs init0_def graph_down_def env0_def)
  then obtain w1 s1 where c: "pinecone_store_try graph_down world0
                  (classify_node graph_down (summarize_node graph_down init0)) = Inr (w1, s1)"
    by blast
  have d: "neo4j_store_try graph_down w1 s1 = Inl ''ServiceUnavailable''"
    by (simp add: neo4j_store_try_def Neo4jService_store_summary_def sbind_def graph_down_def)
  from a have a': "workflow_graph_ainvoke graph_down world0
      (initial_state ''u'' ''v1'' ''hello'' ''bob'' ''casual'') (''workflow_'' @ ''v1'')
      = (w', invoked, Inr s', left)"
    by (simp add: init0_def)
  from c have c': "pinecone_store_try graph_down world0
      (classify_node graph_down (summarize_node graph_down
         (initial_state ''u'' ''v1'' ''hello'' ''bob'' ''casual''))) = Inr (w1, s1)"
    by (simp add: init0_def)
  note r = C3_orphan_vector [OF a' c' d]
  from r have "\<exists>w' s' vector_id.
         run_workflow (workflow_graph_ainvoke graph_down world0)
           ''u'' ''v1'' ''hello'' ''bob'' ''casual''
         = (w', [Summarize, Classify, PineconeStore, Neo4jStore, Finalize], Inr s')
         \<and> pinecone_id s' = Some vector_id \<and> vstore w' vector_id \<noteq> None
         \<and> neo4j_id s' = None \<and> error s' = Some ''ServiceUnavailable''
         \<and> error_step s' = Some ''neo4j_store''"
    by blast
  with a c d show ?thesis by blast
qed

text \<open>
  C10. The claim: in every run that ends with a failed step Finalize is never invoked
  and created_at stays unset, in the returned state and in the checkpoint. The static
  edge from the graph step to Finalize fires whatever the state holds, as do the static
  edges before it. With the graph database down, the graph step fails and sets error
  and error_step to "neo4j_store"; Finalize is invoked all the same and sets
  created_at, and the state with the error and the timestamp is returned and saved
  under the thread id.
\<close>

theorem C10_finalize_runs_after_failure:
  "invoked_steps (run_workflow (workflow_graph_ainvoke graph_down world0)
                    ''u'' ''v1'' ''hello'' ''bob'' ''casual'')
     = [Summarize, Classify, PineconeStore, Neo4jStore, Finalize]
   \<and> map_option (\<lambda>s. (error s, error_step s, created_at s))
       (returned (run_workflow (workflow_graph_ainvoke graph_down world0)
                    ''u'' ''v1'' ''hello'' ''bob'' ''casual''))
     = Some (Some ''ServiceUnavailable'', Some ''neo4j_store'', Some 1000)
   \<and> map_option (\<lambda>s. (error s, error_step s, created_at s))
       (checkpoints (fst (run_workflow (workflow_graph_ainvoke graph_down world0)
                    ''u'' ''v1'' ''hello'' ''bob'' ''casual'')) ''workflow_v1'')
     = Some (Some ''ServiceUnavailable'', Some ''neo4j_store'', Some 1000)
   \<and> static_edge Neo4jStore = Some Finalize"
  by (simp add: run_defs graph_down_def env0_def world0_def)

section \<open>Properties of the entry points and of the status query\<close>




text \<open>
  C8, as claimed: the status has completed = False only for a thread id that the
  checkpoint store does not know. It also has it when the lookup raises: the handler
  of \<open>get_workflow_status\<close> returns completed = False with the text of the exception,
  here for a thread whose snapshot the store holds.
\<close>

theorem C8_counterexample:
  "checkpoints world1 ''t1'' = Some (initial_state ''u'' ''v1'' ''hello'' ''bob'' ''casual'')
   \<and> map_of (get_workflow_status store_down world1 ''t1'') ''completed'' = Some (JBool False)"
  by (simp add: world1_def world0_def get_workflow_status_def memory_get_def store_down_def
      env0_def)

text \<open>
  C8, amended: the status has completed = False if and only if the store does not know
  the thread id or the lookup raises, and in the second case error is the text of the
  exception. Whenever the lookup returns a snapshot, the status is completed = True
  with the snapshot's error, error_step, video_id, summary, topic, category,
  pinecone_id and neo4j_id, whether or not the snapshot is of a failed run.
\<close>

theorem C8_status:
  "((map_of (get_workflow_status env w t) ''completed'' = Some (JBool False))
      = (get_error env t \<noteq> None \<or> checkpoints w t = None))
   \<and> (\<forall>s. get_error env t = None \<and> checkpoints w t = Some s \<longrightarrow>
          get_workflow_status env w t = status_of t s)
   \<and> (\<forall>e. get_error env t = Some e \<longrightarrow>
          get_workflow_status env w t =
            [(''thread_id'', JStr t), (''completed'', JBool False), (''error'', JStr e)])"
  by (auto simp add: get_workflow_status_def memory_get_def status_of_def
      split: option.splits sum.splits)

theorem C8_status_witness:
  "get_error env0 ''t1'' = None
   \<and> checkpoints world1 ''t1'' = Some (initial_state ''u'' ''v1'' ''hello'' ''bob'' ''casual'')
   \<and> get_workflow_status env0 world1 ''t1''
       = status_of ''t1'' (initial_state ''u'' ''v1'' ''hello'' ''bob'' ''casual'')
   \<and> get_error store_down ''t1'' = Some ''connection lost''
   \<and> get_workflow_status store_down world1 ''t1''
       = [(''thread_id'', JStr ''t1''), (''completed'', JBool False),
          (''error'', JStr ''connection lost'')]"
  using C8_status [of env0 world1 "''t1''"] C8_status [of store_down world1 "''t1''"]
  by (simp add: world1_def world0_def store_down_def env0_def)

section \<open>Properties of the graph query\<close>

lemma count_create_node:
  "create_node l' k v g = (i, g') \<Longrightarrow>
   count_label l g' = count_label l g + (if l' = l then 1 else 0)"
  by (auto simp add: count_label_def create_node_def)

lemma count_merge_node:
  "merge_node l' k v g = (i, g') \<Longrightarrow> l' \<noteq> l \<Longrightarrow> count_label l g' = count_label l g"
proof (cases "find (\<lambda>(i, l, ps). l = l' \<and> map_of ps k = Some v) (g_nodes g)")
  case None
  assume m: "merge_node l' k v g = (i, g')" and ne: "l' \<noteq> l"
  from m None have "create_node l' k v g = (i, g')"
    by (simp add: merge_node_def)
  from count_create_node [OF this, of l] ne show ?thesis by simp
next
  case (Some n)
  assume "merge_node l' k v g = (i, g')"
  with Some show ?thesis
    by (auto simp add: merge_node_def split: prod.splits)
qed

lemma count_merge_rel: "count_label l (merge_rel a ty b g) = count_label l g"
  by (simp add: merge_rel_def count_label_def)

lemma count_set_props: "count_label l (set_props i kvs g) = count_label l g"
  by (simp add: set_props_def count_label_def filter_map o_def split_def if_distrib
      cong: if_cong)

lemma count_subcategory_row:
  "count_label ''KeyPoint'' (subcategory_row v t subcat g) = count_label ''KeyPoint'' g"
proof (cases "merge_node ''Subcategory'' ''name'' (JStr subcat) g")
  case (Pair sc g1)
  from count_merge_node [OF Pair, of "''KeyPoint''"]
  have "count_label ''KeyPoint'' g1 = count_label ''KeyPoint'' g" by simp
  with Pair show ?thesis
    by (simp add: subcategory_row_def count_merge_rel)
qed

lemma count_tag_row:
  "count_label ''KeyPoint'' (tag_row v tag_name g) = count_label ''KeyPoint'' g"
proof (cases "merge_node ''Tag'' ''name'' (JStr tag_name) g")
  case (Pair tg g1)
  from count_merge_node [OF Pair, of "''KeyPoint''"]
  have "count_label ''KeyPoint'' g1 = count_label ''KeyPoint'' g" by simp
  with Pair show ?thesis
    by (simp add: tag_row_def count_merge_rel)
qed

lemma count_key_point_row:
  "count_label ''KeyPoint'' (key_point_row v point g) = Suc (count_label ''KeyPoint'' g)"
proof (cases "create_node ''KeyPoint'' ''text'' (JStr point) g")
  case (Pair kp g1)
  from count_create_node [OF Pair, of "''KeyPoint''"]
  have "count_label ''KeyPoint'' g1 = Suc (count_label ''KeyPoint'' g)" by simp
  with Pair show ?thesis
    by (simp add: key_point_row_def count_merge_rel)
qed

lemma count_fold_subcategory:
  "count_label ''KeyPoint'' (fold (subcategory_row v t) rows g) = count_label ''KeyPoint'' g"
  by (induction rows arbitrary: g) (simp_all add: count_subcategory_row)

lemma count_fold_tag:
  "count_label ''KeyPoint'' (fold (tag_row v) rows g) = count_label ''KeyPoint'' g"
  by (induction rows arbitrary: g) (simp_all add: count_tag_row)

lemma count_fold_key_point:
  "count_label ''KeyPoint'' (fold (key_point_row v) rows g)
     = count_label ''KeyPoint'' g + length rows"
  by (induction rows arbitrary: g) (simp_all add: count_key_point_row)

lemma length_unwind: "length (unwind rows xs) = length rows * length xs"
  by (induction rows) (simp_all add: unwind_def)

text \<open>
  Every run of the query adds one KeyPoint node per returned row: the product of the
  numbers of subcategories, tags and key points.
\<close>

lemma count_store_summary_query:
  "count_label ''KeyPoint'' (fst (store_summary_query now a g))
     = count_label ''KeyPoint'' g
       + length (a_subcategories a) * length (a_tags a) * length (a_key_points a)"
proof -
  obtain v g1 where v: "merge_node ''Video'' ''video_id'' (JStr (a_video_id a)) g = (v, g1)"
    by (cases "merge_node ''Video'' ''video_id'' (JStr (a_video_id a)) g")
  define g2 where "g2 = set_props v [(''title'', JStr (a_title a)),
                            (''summary'', JStr (a_summary a)),
                            (''tone'', JStr (a_tone a)),
                            (''confidence'', JFloat (a_confidence a)),
                            (''created_at'', JInt (int now))] g1"
  obtain u g3 where u: "merge_node ''User'' ''user_id'' (JStr (a_user_id a)) g2 = (u, g3)"
    by (cases "merge_node ''User'' ''user_id'' (JStr (a_user_id a)) g2")
  obtain t g4 where t: "merge_node ''Topic'' ''name'' (JStr (a_topic a)) g3 = (t, g4)"
    by (cases "merge_node ''Topic'' ''name'' (JStr (a_topic a)) g3")
  obtain c g5 where c: "merge_node ''Category'' ''name'' (JStr (a_category a)) g4 = (c, g5)"
    by (cases "merge_node ''Category'' ''name'' (JStr (a_category a)) g4")
  have 1: "count_label ''KeyPoint'' g1 = count_label ''KeyPoint'' g"
    using count_merge_node [OF v, of "''KeyPoint''"] by simp
  have 2: "count_label ''KeyPoint'' g2 = count_label ''KeyPoint'' g1"
    by (simp add: g2_def count_set_props)
  have 3: "count_label ''KeyPoint'' g3 = count_label ''KeyPoint'' g2"
    using count_merge_node [OF u, of "''KeyPoint''"] by simp
  have 4: "count_label ''KeyPoint'' g4 = count_label ''KeyPoint'' g3"
    using count_merge_node [OF t, of "''KeyPoint''"] by simp
  have 5: "count_label ''KeyPoint'' g5 = count_label ''KeyPoint'' g4"
    using count_merge_node [OF c, of "''KeyPoint''"] by simp
  show ?thesis
    using v u t c 1 2 3 4 5
    by (simp add: store_summary_query_def g2_def [symmetric] Let_def count_fold_key_point
        count_fold_tag count_fold_subcategory count_merge_rel length_unwind)
qed

text \<open>
  C4. The claim: storing the same summary twice leaves the same nodes as storing it
  once. The query merges every node except the key points, which it makes with
  \<open>CREATE\<close>: on the empty graph, one run with one subcategory, one tag and one key
  point leaves one KeyPoint node, and a second run with the same arguments leaves two.
\<close>

theorem C4_duplicate_key_points:
  "count_label ''KeyPoint'' (fst (store_summary_query 5 args0 empty_graph)) = 1
   \<and> count_label ''KeyPoint''
        (fst (store_summary_query 6 args0 (fst (store_summary_query 5 args0 empty_graph)))) = 2"
  by (simp add: count_store_summary_query args0_def)
     (simp add: count_label_def empty_graph_def)

end
